theory Spec2Isabelle
  imports Complex_Main
begin

section \<open>Values shared by cascadebot.py and BFClient.py\<close>

text \<open>
  A finite \<open>Decimal\<close> is modelled by its value, an exact rational (\<open>rat\<close>); comparison
  and \<open>max\<close> of Decimals are those of the values. Instants (\<open>datetime\<close>) and durations
  (\<open>timedelta\<close>) are integers counting microseconds, the resolution of both Python
  types.
\<close>

datatype py_error =
    Exception string
  | TypeError
  | ZeroDivisionError
  | InvalidOperation
  | Overflow
  | HTTPError int

text \<open>
  The right operand of \<open>time_elapsed // decrement_interval\<close> is a \<open>timedelta\<close> in one
  file and the integer literal \<open>1\<close> in the other, and the result type of \<open>//\<close> depends on
  it: \<open>timedelta // timedelta\<close> is an \<open>int\<close>, \<open>timedelta // int\<close> is a \<open>timedelta\<close>.
\<close>

datatype pyval = PyInt int | PyTimedelta int

fun timedelta_floordiv :: "int \<Rightarrow> pyval \<Rightarrow> py_error + pyval" where
  "timedelta_floordiv t (PyTimedelta d) =
     (if d = 0 then Inl ZeroDivisionError else Inr (PyInt (t div d)))"
| "timedelta_floordiv t (PyInt k) =
     (if k = 0 then Inl ZeroDivisionError else Inr (PyTimedelta (t div k)))"

text \<open>\<open>x < 1\<close>: an \<open>int\<close> compares with \<open>1\<close>; a \<open>timedelta\<close> does not (\<open>TypeError\<close>).\<close>

fun less_than_one :: "pyval \<Rightarrow> py_error + bool" where
  "less_than_one (PyInt n) = Inr (n < 1)"
| "less_than_one (PyTimedelta d) = Inl TypeError"

text \<open>\<open>range(x)\<close>: the number of iterations; a \<open>timedelta\<close> is not an integer.\<close>

fun range_count :: "pyval \<Rightarrow> py_error + nat" where
  "range_count (PyInt n) = Inr (nat n)"
| "range_count (PyTimedelta d) = Inl TypeError"

subsection \<open>Decimal arithmetic\<close>

text \<open>
  The results of \<open>+\<close>, \<open>-\<close> and \<open>*\<close> on Decimals are the exact results rounded in the
  context, which is the default one: 28 significant digits, rounding half to even,
  \<open>Emax = 999999\<close>, \<open>Emin = -999999\<close>, and of the signals that rounding can raise only
  \<open>Overflow\<close> trapped, that is raised as an exception. On the values this is:
  zero stays zero; a result whose leading digit stands above \<open>10 ^ Emax\<close> overflows;
  any other result is rounded to a multiple of \<open>10 ^ s\<close>, where \<open>s\<close> is 27 places
  below its leading digit, but not below \<open>Etiny = Emin - 27\<close>; and if that rounding
  carries the result above \<open>10 ^ Emax\<close> it overflows as well. A value that needs no
  more than 28 digits, within those exponents, is left as it is.
\<close>

text \<open>The number of decimal digits of a positive integer.\<close>

function ndigits :: "int \<Rightarrow> nat" where
  "ndigits n = (if n < 10 then 1 else Suc (ndigits (n div 10)))"
  by pat_completeness auto
termination
  by (relation "measure nat") auto

declare ndigits.simps [simp del]

text \<open>\<open>x * 10 ^ s\<close> for an integer \<open>s\<close> of either sign.\<close>

definition scale10 :: "rat \<Rightarrow> int \<Rightarrow> rat" where
  "scale10 x s = (if 0 \<le> s then x * 10 ^ nat s else x / 10 ^ nat (- s))"

text \<open>
  The adjusted exponent of a value other than zero: the place of its leading digit, the
  \<open>e\<close> with \<open>10 ^ e \<le> \<bar>x\<bar> < 10 ^ (e + 1)\<close>. From 1 upwards it is found from the digits
  of the integer part, below 1 from the digits of the reciprocal.
\<close>

definition adjusted :: "rat \<Rightarrow> int" where
  "adjusted x =
     (if 1 \<le> \<bar>x\<bar> then int (ndigits \<lfloor>\<bar>x\<bar>\<rfloor>) - 1
      else - int (ndigits (\<lceil>1 / \<bar>x\<bar>\<rceil> - 1)))"

definition round_half_even :: "rat \<Rightarrow> int" where
  "round_half_even v =
     (let f = \<lfloor>v\<rfloor>; r = v - of_int f
      in if r < 1 / 2 then f else if 1 / 2 < r then f + 1
         else if even f then f else f + 1)"

definition context_prec :: int where
  "context_prec = 28"

definition context_Emax :: int where
  "context_Emax = 999999"

definition context_Etiny :: int where
  "context_Etiny = - 999999 - context_prec + 1"

definition context_round :: "rat \<Rightarrow> py_error + rat" where
  "context_round x =
     (if x = 0 then Inr 0
      else if context_Emax < adjusted x then Inl Overflow
      else
        let s = max (adjusted x - context_prec + 1) context_Etiny;
            y = sgn x * scale10 (of_int (round_half_even (scale10 \<bar>x\<bar> (- s)))) s
        in if y \<noteq> 0 \<and> context_Emax < adjusted y then Inl Overflow else Inr y)"

definition dec_add :: "rat \<Rightarrow> rat \<Rightarrow> py_error + rat" where
  "dec_add a b = context_round (a + b)"

definition dec_sub :: "rat \<Rightarrow> rat \<Rightarrow> py_error + rat" where
  "dec_sub a b = context_round (a - b)"

definition dec_mul :: "rat \<Rightarrow> rat \<Rightarrow> py_error + rat" where
  "dec_mul a b = context_round (a * b)"

section \<open>Offer\<close>

text \<open>
  The class \<open>Offer\<close>. Its two \<open>Decimal\<close> fields have the type \<open>'d\<close> of whatever the
  library's \<open>Decimal\<close> returns when the object is built from the exchange's data (see
  \<open>Offer.__init__\<close> below). The arithmetic of \<open>get_new_rate\<close> and \<open>adjust_offers\<close> is that
  of finite Decimals, modelled by their values: there the type is \<open>offer\<close>.
\<close>

record 'd offer_of =
  offer_id :: int
  currency :: string
  rate :: 'd
  submitted_at :: int
  amount :: 'd

type_synonym offer = "rat offer_of"

text \<open>
  The module constants of cascadebot.py come from \<open>config\<close>, which is not part of the
  sources; they are the fields of a record passed to every function that reads them.
\<close>

record config =
  USD_MINIMUM_RATE_PERCENT :: rat
  USD_RATE_REDUCTION_INTERVAL :: pyval
  USD_RATE_DECREMENT_PERCENT :: rat
  USD_RATE_EXPONENTIAL_DECAY_MULTIPLIER :: rat
  BTC_MINIMUM_RATE_PERCENT :: rat
  BTC_RATE_REDUCTION_INTERVAL :: pyval
  BTC_RATE_DECREMENT_PERCENT :: rat
  BTC_RATE_EXPONENTIAL_DECAY_MULTIPLIER :: rat

subsection \<open>Offer.get_new_rate\<close>

text \<open>
  The body of the \<open>for i in range(intervals_elapsed)\<close> loop, run \<open>n\<close> times:
  the linear reduction first, then the pull towards \<open>min_rate\<close>, which is a
  subtraction, a multiplication and an addition. Each of the four operations rounds,
  and may overflow.
\<close>

fun decay_loop :: "rat \<Rightarrow> rat \<Rightarrow> rat \<Rightarrow> nat \<Rightarrow> rat \<Rightarrow> py_error + rat" where
  "decay_loop min_rate rate_decrement decay_multiplier 0 new_rate = Inr new_rate"
| "decay_loop min_rate rate_decrement decay_multiplier (Suc n) new_rate =
     (case dec_sub new_rate rate_decrement of
        Inl e \<Rightarrow> Inl e
      | Inr lowered \<Rightarrow>
          (case dec_sub lowered min_rate of
             Inl e \<Rightarrow> Inl e
           | Inr excess \<Rightarrow>
               (case dec_mul excess decay_multiplier of
                  Inl e \<Rightarrow> Inl e
                | Inr pulled \<Rightarrow>
                    (case dec_add pulled min_rate of
                       Inl e \<Rightarrow> Inl e
                     | Inr next_rate \<Rightarrow>
                         decay_loop min_rate rate_decrement decay_multiplier n
                           next_rate))))"

text \<open>
  Everything after the currency branch (the same text in both files): the floor test, the
  number of elapsed intervals, the loop and the clamp. \<open>utcnow\<close> is the value that
  \<open>datetime.utcnow()\<close> returns in this call.
\<close>

definition new_rate_after ::
  "rat \<Rightarrow> rat \<Rightarrow> rat \<Rightarrow> pyval \<Rightarrow> int \<Rightarrow> offer \<Rightarrow> py_error + rat option" where
  "new_rate_after min_rate rate_decrement decay_multiplier decrement_interval utcnow self =
     (if rate self \<le> min_rate then Inr None
      else
        let time_elapsed = utcnow - submitted_at self in
        case timedelta_floordiv time_elapsed decrement_interval of
          Inl e \<Rightarrow> Inl e
        | Inr intervals_elapsed \<Rightarrow>
            (case less_than_one intervals_elapsed of
               Inl e \<Rightarrow> Inl e
             | Inr True \<Rightarrow> Inr None
             | Inr False \<Rightarrow>
                 (case range_count intervals_elapsed of
                    Inl e \<Rightarrow> Inl e
                  | Inr n \<Rightarrow>
                      (case decay_loop min_rate rate_decrement decay_multiplier n
                              (rate self) of
                         Inl e \<Rightarrow> Inl e
                       | Inr new_rate \<Rightarrow> Inr (Some (max new_rate min_rate))))))"

text \<open>cascadebot.py, lines 139-177.\<close>

definition get_new_rate :: "config \<Rightarrow> int \<Rightarrow> offer \<Rightarrow> py_error + rat option" where
  "get_new_rate cfg utcnow self =
     (if currency self = ''USD'' then
        new_rate_after (USD_MINIMUM_RATE_PERCENT cfg) (USD_RATE_DECREMENT_PERCENT cfg)
          (USD_RATE_EXPONENTIAL_DECAY_MULTIPLIER cfg) (USD_RATE_REDUCTION_INTERVAL cfg)
          utcnow self
      else if currency self = ''BTC'' then
        new_rate_after (BTC_MINIMUM_RATE_PERCENT cfg) (BTC_RATE_DECREMENT_PERCENT cfg)
          (BTC_RATE_EXPONENTIAL_DECAY_MULTIPLIER cfg) (BTC_RATE_REDUCTION_INTERVAL cfg)
          utcnow self
      else Inl (Exception ''Unrecognized currency string''))"

text \<open>BFClient.py, lines 41-79: the same method with literal constants.\<close>

definition BFClient_get_new_rate :: "int \<Rightarrow> offer \<Rightarrow> py_error + rat option" where
  "BFClient_get_new_rate utcnow self =
     (if currency self = ''USD'' then new_rate_after 0 1 1 (PyInt 1) utcnow self
      else if currency self = ''BTC'' then new_rate_after 1 1 1 (PyInt 1) utcnow self
      else Inl (Exception ''Unrecognized currency string''))"

subsection \<open>The library\<close>

text \<open>
  \<open>Decimal(s)\<close>, \<open>int(x)\<close> and \<open>datetime.utcfromtimestamp(n)\<close> belong to Python's library,
  not to the program. Which literals \<open>Decimal\<close> accepts (exponents, \<open>NaN\<close>, \<open>Infinity\<close>,
  underscores, surrounding blanks), which values it returns for them and when each of the
  three functions raises is left open here: they are parameters of the functions that
  call them, over any type \<open>'d\<close> of Decimal values. \<open>utcfromtimestamp\<close> gives the instant
  in microseconds.
\<close>

record 'd library =
  Decimal :: "string \<Rightarrow> py_error + 'd"
  int_of_Decimal :: "'d \<Rightarrow> py_error + int"
  utcfromtimestamp :: "int \<Rightarrow> py_error + int"

subsection \<open>Offer.__init__\<close>

text \<open>
  One entry of the exchange's offer list, with the keys that the code reads. All values
  but the identifier are strings in the exchange's JSON.
\<close>

record offer_dict =
  o_id :: int
  o_currency :: string
  o_rate :: string
  o_timestamp :: string
  o_remaining_amount :: string
  o_direction :: string

text \<open>
  The fields are computed in the order of the source, so the first call that raises is
  the one reported: \<open>Decimal\<close> of the rate, then \<open>Decimal\<close>, \<open>int\<close> and
  \<open>utcfromtimestamp\<close> of the timestamp, then \<open>Decimal\<close> of the remaining amount.
\<close>

definition Offer :: "'d library \<Rightarrow> offer_dict \<Rightarrow> py_error + 'd offer_of" where
  "Offer lib offer_dict =
     (case Decimal lib (o_rate offer_dict) of
        Inl e \<Rightarrow> Inl e
      | Inr r \<Rightarrow>
          (case Decimal lib (o_timestamp offer_dict) of
             Inl e \<Rightarrow> Inl e
           | Inr ts \<Rightarrow>
               (case int_of_Decimal lib ts of
                  Inl e \<Rightarrow> Inl e
                | Inr seconds \<Rightarrow>
                    (case utcfromtimestamp lib seconds of
                       Inl e \<Rightarrow> Inl e
                     | Inr t \<Rightarrow>
                         (case Decimal lib (o_remaining_amount offer_dict) of
                            Inl e \<Rightarrow> Inl e
                          | Inr a \<Rightarrow>
                              Inr \<lparr>offer_id = o_id offer_dict,
                                   currency = o_currency offer_dict, rate = r,
                                   submitted_at = t, amount = a\<rparr>)))))"

section \<open>BitfinexAPI: reading offers and balances\<close>

subsection \<open>get_offers\<close>

text \<open>
  The loop over \<open>offers_data\<close>, the parsed answer of \<open>/v1/offers\<close>; \<open>usd_offers\<close> and
  \<open>btc_offers\<close> grow by \<open>append\<close>. The test on the rate compares the string of the
  entry with the string \<open>0.0\<close>. The text is the same in cascadebot.py (lines 201-224)
  and BFClient.py (lines 105-128).
\<close>

fun get_offers_loop ::
  "'d library \<Rightarrow> offer_dict list \<Rightarrow> 'd offer_of list \<Rightarrow> 'd offer_of list \<Rightarrow>
   py_error + ('d offer_of list \<times> 'd offer_of list)" where
  "get_offers_loop lib [] usd_offers btc_offers = Inr (usd_offers, btc_offers)"
| "get_offers_loop lib (d # ds) usd_offers btc_offers =
     (if o_direction d = ''lend'' \<and> o_rate d \<noteq> ''0.0'' then
        (case Offer lib d of
           Inl e \<Rightarrow> Inl e
         | Inr offer \<Rightarrow>
             if currency offer = ''USD'' then
               get_offers_loop lib ds (usd_offers @ [offer]) btc_offers
             else if currency offer = ''BTC'' then
               get_offers_loop lib ds usd_offers (btc_offers @ [offer])
             else get_offers_loop lib ds usd_offers btc_offers)
      else get_offers_loop lib ds usd_offers btc_offers)"

definition get_offers ::
  "'d library \<Rightarrow> offer_dict list \<Rightarrow> py_error + ('d offer_of list \<times> 'd offer_of list)" where
  "get_offers lib offers_data = get_offers_loop lib offers_data [] []"

subsection \<open>get_available_balances\<close>







section \<open>adjust_offers\<close>

text \<open>
  The calls that \<open>adjust_offers\<close> makes on its \<open>api\<close> argument, and the lines it prints.
  The exchange is an environment: \<open>api calls c\<close> is the outcome of the call \<open>c\<close> made after
  the calls \<open>calls\<close> (an \<open>Offer\<close> built from the answer, or the exception that the call
  raises). \<open>utcnow k\<close> is the time that the \<open>k\<close>-th \<open>get_new_rate\<close> of the pass reads.
\<close>

datatype call =
    Cancel_offer offer
  | New_offer string rat rat int

datatype printout =
    Print_offer offer
  | Print_skip rat string rat

record bot =
  calls :: "call list"
  printed :: "printout list"

type_synonym exchange = "call list \<Rightarrow> call \<Rightarrow> py_error + offer"

text \<open>
  \<open>new_offer_amounts[new_rate] += amount\<close> on a \<open>defaultdict(Decimal)\<close>: a new key starts
  from \<open>Decimal()\<close>, which is 0, and is added last; the keys keep their insertion order.
\<close>

fun add_amount :: "(rat \<times> rat) list \<Rightarrow> rat \<Rightarrow> rat \<Rightarrow> (rat \<times> rat) list" where
  "add_amount [] new_rate a = [(new_rate, 0 + a)]"
| "add_amount ((r, held) # rest) new_rate a =
     (if r = new_rate then (r, held + a) # rest
      else (r, held) # add_amount rest new_rate a)"

text \<open>The first loop: \<open>for offer in offers\<close>; \<open>k\<close> counts the offers already seen.\<close>

fun cancel_loop ::
  "(int \<Rightarrow> offer \<Rightarrow> py_error + rat option) \<Rightarrow> exchange \<Rightarrow> (nat \<Rightarrow> int) \<Rightarrow>
   offer list \<Rightarrow> nat \<Rightarrow> (rat \<times> rat) list \<Rightarrow> bot \<Rightarrow> (py_error + (rat \<times> rat) list) \<times> bot" where
  "cancel_loop new_rate_of api utcnow [] k new_offer_amounts s = (Inr new_offer_amounts, s)"
| "cancel_loop new_rate_of api utcnow (offer # offers) k new_offer_amounts s =
     (case new_rate_of (utcnow k) offer of
        Inl e \<Rightarrow> (Inl e, s)
      | Inr None \<Rightarrow> cancel_loop new_rate_of api utcnow offers (Suc k) new_offer_amounts s
      | Inr (Some new_rate) \<Rightarrow>
          (case api (calls s) (Cancel_offer offer) of
             Inl e \<Rightarrow> (Inl e, s\<lparr>calls := calls s @ [Cancel_offer offer]\<rparr>)
           | Inr cancelled_offer \<Rightarrow>
               cancel_loop new_rate_of api utcnow offers (Suc k)
                 (add_amount new_offer_amounts new_rate (amount cancelled_offer))
                 (s\<lparr>calls := calls s @ [Cancel_offer offer]\<rparr>)))"

text \<open>The second loop: \<open>for rate, amount in new_offer_amounts.items()\<close>.\<close>

fun offer_loop ::
  "exchange \<Rightarrow> string \<Rightarrow> int \<Rightarrow> rat \<Rightarrow> (rat \<times> rat) list \<Rightarrow> bot \<Rightarrow> (py_error + unit) \<times> bot" where
  "offer_loop api cur lend_period minimum_amount [] s = (Inr (), s)"
| "offer_loop api cur lend_period minimum_amount ((r, a) # rest) s =
     (if a > minimum_amount then
        (case api (calls s) (New_offer cur a r lend_period) of
           Inl e \<Rightarrow> (Inl e, s\<lparr>calls := calls s @ [New_offer cur a r lend_period]\<rparr>)
         | Inr new \<Rightarrow>
             offer_loop api cur lend_period minimum_amount rest
               (s\<lparr>calls := calls s @ [New_offer cur a r lend_period],
                  printed := printed s @ [Print_offer new]\<rparr>))
      else
        offer_loop api cur lend_period minimum_amount rest
          (s\<lparr>printed := printed s @ [Print_skip r cur a]\<rparr>))"

text \<open>
  The function itself, for any \<open>get_new_rate\<close> method of the offers (the text of
  \<open>adjust_offers\<close> is the same in cascadebot.py, BFClient.py and lending.py).
\<close>

definition adjust_offers_with ::
  "(int \<Rightarrow> offer \<Rightarrow> py_error + rat option) \<Rightarrow> exchange \<Rightarrow> (nat \<Rightarrow> int) \<Rightarrow>
   offer list \<Rightarrow> int \<Rightarrow> rat \<Rightarrow> bot \<Rightarrow> (py_error + unit) \<times> bot" where
  "adjust_offers_with new_rate_of api utcnow offers lend_period minimum_amount s =
     (case offers of
        [] \<Rightarrow> (Inr (), s)
      | first # _ \<Rightarrow>
          (case cancel_loop new_rate_of api utcnow offers 0 [] s of
             (Inl e, s1) \<Rightarrow> (Inl e, s1)
           | (Inr new_offer_amounts, s1) \<Rightarrow>
               offer_loop api (currency first) lend_period minimum_amount
                 new_offer_amounts s1))"


definition BFClient_adjust_offers ::
  "exchange \<Rightarrow> (nat \<Rightarrow> int) \<Rightarrow> offer list \<Rightarrow> int \<Rightarrow> rat \<Rightarrow> bot \<Rightarrow> (py_error + unit) \<times> bot" where
  "BFClient_adjust_offers = adjust_offers_with BFClient_get_new_rate"

section \<open>BitfinexAPI: requests\<close>

text \<open>
  The object's own state is the nonce counter and the deque of request timestamps. The
  rest of the world is the clock, the HTTP transport and what the process prints or
  sleeps: \<open>now\<close> is the UTC time in microseconds, \<open>lag env k\<close> what the clock gains before
  its \<open>k\<close>-th reading, on top of the time slept, and \<open>http env k\<close> the outcome of the
  \<open>k\<close>-th \<open>requests.post\<close>. \<open>datetime.utcnow()\<close> reads the wall clock, which can be set
  while the bot runs, so a lag may be negative.
\<close>

record api_state =
  nonce :: int
  request_timestamps :: "int list"

record response =
  status_code :: int
  text_of :: string

datatype attempt =
    Connection_failed
  | Responded response

datatype event =
    Stamped int
  | Rate_limit_sleep int
  | Signed string int
  | Post string int
  | Retry_sleep "string option" nat
  | Print_text string

record world =
  now :: int
  clock_reads :: nat
  attempts :: nat
  log :: "event list"

record env =
  lag :: "nat \<Rightarrow> int"
  http :: "nat \<Rightarrow> attempt"

definition rate_limit_interval :: int where
  "rate_limit_interval = 70 * 1000000"

definition max_requests_per_interval :: nat where
  "max_requests_per_interval = 60"

text \<open>
  \<open>datetime.utcnow()\<close> and \<open>time.sleep(d)\<close>, with \<open>d\<close> in microseconds. A sleep that
  lasts longer than asked shows as the lag of the next reading. The code never asks for
  a negative sleep: the rate limiter's delay is the distance from \<open>expire\<close> to a timestamp
  that is not before it, and the backoff is a power of two.
\<close>

definition datetime_utcnow :: "env \<Rightarrow> world \<Rightarrow> int \<times> world" where
  "datetime_utcnow env w =
     (let t = now w + lag env (clock_reads w)
      in (t, w\<lparr>now := t, clock_reads := Suc (clock_reads w)\<rparr>))"

definition sleep :: "int \<Rightarrow> world \<Rightarrow> world" where
  "sleep d w = w\<lparr>now := now w + d\<rparr>"

text \<open>
  \<open>int(time.time())\<close> for a clock that stands at \<open>t\<close> microseconds: the whole seconds,
  truncated towards zero.
\<close>

definition whole_seconds :: "int \<Rightarrow> int" where
  "whole_seconds t = (if 0 \<le> t then t div 1000000 else - ((- t) div 1000000))"

text \<open>\<open>__init__\<close>: \<open>count(int(time.time()))\<close> and an empty deque.\<close>

definition BitfinexAPI :: "world \<Rightarrow> api_state" where
  "BitfinexAPI w = \<lparr>nonce = whole_seconds (now w), request_timestamps = []\<rparr>"

subsection \<open>_rate_limiter\<close>

text \<open>
  The \<open>while True\<close> loop: read the clock, drop the expired timestamps from the left, and
  either sleep and go round again or leave. It need not end, so its result is optional.
\<close>

partial_function (option) rate_limiter_loop ::
  "env \<Rightarrow> int list \<Rightarrow> world \<Rightarrow> (int list \<times> world) option" where
  "rate_limiter_loop env timestamps w =
     (case datetime_utcnow env w of
        (t, w1) \<Rightarrow>
          (let expire = t - rate_limit_interval;
               timestamps1 = dropWhile (\<lambda>x. x < expire) timestamps
           in if length timestamps1 \<ge> max_requests_per_interval then
                (let delay = hd timestamps1 - expire
                 in rate_limiter_loop env timestamps1
                      (sleep delay (w1\<lparr>log := log w1 @ [Rate_limit_sleep delay]\<rparr>)))
              else Some (timestamps1, w1)))"

declare rate_limiter_loop.simps [code]

definition rate_limiter :: "env \<Rightarrow> api_state \<Rightarrow> world \<Rightarrow> (api_state \<times> world) option" where
  "rate_limiter env api w =
     (case rate_limiter_loop env (request_timestamps api) w of
        None \<Rightarrow> None
      | Some (timestamps, w1) \<Rightarrow>
          (case datetime_utcnow env w1 of
             (t, w2) \<Rightarrow>
               Some (api\<lparr>request_timestamps := timestamps @ [t]\<rparr>,
                     w2\<lparr>log := log w2 @ [Stamped t]\<rparr>)))"

subsection \<open>_request\<close>

text \<open>
  The truth value of a \<open>requests.Response\<close> is its \<open>ok\<close> property: false for every status
  from 400 to 599, for which \<open>raise_for_status()\<close> raises, and true otherwise.
\<close>

definition ok :: "response \<Rightarrow> bool" where
  "ok r = (\<not> (400 \<le> status_code r \<and> status_code r < 600))"

text \<open>
  One round of the \<open>while request is None\<close> loop up to the test \<open>if request is None\<close>:
  the value of \<open>request\<close> (\<open>None\<close> or a response) and of \<open>status_string\<close> there. The test
  \<open>request and request.status_code == 500\<close> asks for the truth value of \<open>request\<close> first.
\<close>

definition attempt_outcome :: "attempt \<Rightarrow> response option \<times> string option" where
  "attempt_outcome a =
     (let (request, status_string) =
            (case a of
               Connection_failed \<Rightarrow> (None, Some ''Connection failed,'')
             | Responded r \<Rightarrow> (Some r, None))
      in if (case request of None \<Rightarrow> False | Some r \<Rightarrow> ok r \<and> status_code r = 500)
         then (None, Some ''500 internal server error,'')
         else (request, status_string))"

partial_function (option) retry_loop ::
  "env \<Rightarrow> string \<Rightarrow> int \<Rightarrow> nat \<Rightarrow> world \<Rightarrow> (response \<times> world) option" where
  "retry_loop env request_type n retry_count w =
     (let w1 = w\<lparr>attempts := Suc (attempts w), log := log w @ [Post request_type n]\<rparr>
      in case attempt_outcome (http env (attempts w)) of
           (None, status_string) \<Rightarrow>
             (let delay = 2 ^ retry_count
              in retry_loop env request_type n (Suc retry_count)
                   (sleep (int delay * 1000000)
                      (w1\<lparr>log := log w1 @ [Retry_sleep status_string delay]\<rparr>)))
         | (Some r, status_string) \<Rightarrow> Some (r, w1))"

declare retry_loop.simps [code]

text \<open>
  The whole of \<open>_request\<close>: one pass through the rate limiter, one nonce, the retry loop,
  and the check of the status. The result is the body of the response, which the source
  decodes as JSON.
\<close>

definition request ::
  "env \<Rightarrow> string \<Rightarrow> api_state \<Rightarrow> world \<Rightarrow> ((py_error + string) \<times> api_state \<times> world) option" where
  "request env request_type api w =
     (case rate_limiter env api w of
        None \<Rightarrow> None
      | Some (api1, w1) \<Rightarrow>
          (let n = nonce api1;
               api2 = api1\<lparr>nonce := n + 1\<rparr>;
               w2 = w1\<lparr>log := log w1 @ [Signed request_type n]\<rparr>
           in case retry_loop env request_type n 0 w2 of
                None \<Rightarrow> None
              | Some (r, w3) \<Rightarrow>
                  if status_code r \<noteq> 200 then
                    (let w4 = w3\<lparr>log := log w3 @ [Print_text (text_of r)]\<rparr>
                     in if ok r then Some (Inr (text_of r), api2, w4)
                        else Some (Inl (HTTPError (status_code r)), api2, w4))
                  else Some (Inr (text_of r), api2, w3)))"





section \<open>Invariant of the rate limiter\<close>



section \<open>Example inputs\<close>

text \<open>
  A configuration with an interval of one hour for both currencies, and an exchange that
  answers a cancellation with the offer as it was and a new offer with an offer of the
  requested currency, rate and amount.
\<close>

definition hourly_config :: "rat \<Rightarrow> rat \<Rightarrow> rat \<Rightarrow> config" where
  "hourly_config min_rate d m =
     \<lparr>USD_MINIMUM_RATE_PERCENT = min_rate,
      USD_RATE_REDUCTION_INTERVAL = PyTimedelta 3600000000,
      USD_RATE_DECREMENT_PERCENT = d,
      USD_RATE_EXPONENTIAL_DECAY_MULTIPLIER = m,
      BTC_MINIMUM_RATE_PERCENT = min_rate,
      BTC_RATE_REDUCTION_INTERVAL = PyTimedelta 3600000000,
      BTC_RATE_DECREMENT_PERCENT = d,
      BTC_RATE_EXPONENTIAL_DECAY_MULTIPLIER = m\<rparr>"


definition usd_offer :: "int \<Rightarrow> rat \<Rightarrow> rat \<Rightarrow> offer" where
  "usd_offer i r a = \<lparr>offer_id = i, currency = ''USD'', rate = r, submitted_at = 0, amount = a\<rparr>"

text \<open>
  A world that starts at a whole second with nothing read, sent or printed; a clock on
  which one microsecond passes before every reading; a server that answers 500 three
  times and then 200; and a network that fails three times before the server answers 200.
\<close>

definition start_world :: world where
  "start_world = \<lparr>now = 1444141857000000, clock_reads = 0, attempts = 0, log = []\<rparr>"

definition three_500_then_200 :: "nat \<Rightarrow> attempt" where
  "three_500_then_200 k =
     (if k < 3 then Responded \<lparr>status_code = 500, text_of = ''Internal Server Error''\<rparr>
      else Responded \<lparr>status_code = 200, text_of = ''[]''\<rparr>)"

definition three_failures_then_200 :: "nat \<Rightarrow> attempt" where
  "three_failures_then_200 k =
     (if k < 3 then Connection_failed
      else Responded \<lparr>status_code = 200, text_of = ''[]''\<rparr>)"


text \<open>
  A stand-in for the library in the examples: it reads the few literals that the
  examples use, each as Python's \<open>Decimal\<close> reads it, and knows no other; \<open>int\<close>
  truncates towards zero.
\<close>

definition example_library :: "rat library" where
  "example_library =
     \<lparr>Decimal = (\<lambda>s.
        case map_of [(''0.00'', 0), (''5.0'', 5), (''100.0'', 100), (''300.0'', 300),
                     (''120.5'', 241 / 2), (''0.25'', 1 / 4), (''2.0'', 2),
                     (''1444141857.0'', 1444141857)] s of
          None \<Rightarrow> Inl InvalidOperation
        | Some v \<Rightarrow> Inr v),
      int_of_Decimal = (\<lambda>x. Inr (if 0 \<le> x then \<lfloor>x\<rfloor> else \<lceil>x\<rceil>)),
      utcfromtimestamp = (\<lambda>n. Inr (1000000 * n))\<rparr>"


section \<open>Rate decay\<close>

text \<open>Small whole numbers need no rounding.\<close>

lemma context_round_examples:
  "context_round 1 = Inr 1" "context_round 2 = Inr 2" "context_round 3 = Inr 3"
  "context_round 4 = Inr 4" "context_round 5 = Inr 5" "context_round (- 3) = Inr (- 3)"
  "context_round (- 4) = Inr (- 4)"
  by code_simp+

lemmas get_new_rate_eval =
  get_new_rate_def new_rate_after_def hourly_config_def usd_offer_def
  dec_sub_def dec_mul_def dec_add_def numeral_2_eq_2 context_round_examples

lemma decay_loop_linear:
  assumes "\<forall>k\<in>{1..n}.
             context_round (r - of_nat k * d) = Inr (r - of_nat k * d) \<and>
             context_round (r - of_nat k * d - min_rate) = Inr (r - of_nat k * d - min_rate)"
  shows "decay_loop min_rate d 1 n r = Inr (r - of_nat n * d)"
  using assms
proof (induction n arbitrary: r)
  case 0
  show ?case by simp
next
  case (Suc n)
  have "1 \<in> {1..Suc n}" by simp
  with Suc.prems have one: "context_round (r - d) = Inr (r - d)"
    "context_round (r - d - min_rate) = Inr (r - d - min_rate)"
    by fastforce+
  have rest: "\<forall>k\<in>{1..n}.
             context_round (r - d - of_nat k * d) = Inr (r - d - of_nat k * d) \<and>
             context_round (r - d - of_nat k * d - min_rate)
               = Inr (r - d - of_nat k * d - min_rate)"
  proof
    fix k assume "k \<in> {1..n}"
    then have "Suc k \<in> {1..Suc n}" by simp
    with Suc.prems have
      "context_round (r - of_nat (Suc k) * d) = Inr (r - of_nat (Suc k) * d) \<and>
       context_round (r - of_nat (Suc k) * d - min_rate)
         = Inr (r - of_nat (Suc k) * d - min_rate)"
      by blast
    moreover have "r - of_nat (Suc k) * d = r - d - of_nat k * d"
      by (simp add: algebra_simps)
    ultimately show
      "context_round (r - d - of_nat k * d) = Inr (r - d - of_nat k * d) \<and>
       context_round (r - d - of_nat k * d - min_rate)
         = Inr (r - d - of_nat k * d - min_rate)"
      by (simp only:)
  qed
  have "decay_loop min_rate d 1 (Suc n) r = decay_loop min_rate d 1 n (r - d)"
    by (simp add: dec_sub_def dec_mul_def dec_add_def one)
  also have "\<dots> = Inr (r - d - of_nat n * d)"
    by (rule Suc.IH [OF rest])
  also have "r - d - of_nat n * d = r - of_nat (Suc n) * d"
    by (simp add: algebra_simps)
  finally show ?case .
qed

lemma decay_loop_exponential:
  assumes "\<forall>k\<in>{0..n}.
             context_round (min_rate + (r - min_rate) * m ^ k)
               = Inr (min_rate + (r - min_rate) * m ^ k) \<and>
             context_round ((r - min_rate) * m ^ k) = Inr ((r - min_rate) * m ^ k)"
  shows "decay_loop min_rate 0 m n r = Inr (min_rate + (r - min_rate) * m ^ n)"
  using assms
proof (induction n arbitrary: r)
  case 0
  show ?case by simp
next
  case (Suc n)
  let ?r' = "min_rate + (r - min_rate) * m"
  have "0 \<in> {0..Suc n}" "1 \<in> {0..Suc n}" by simp_all
  with Suc.prems have
    zero: "context_round (min_rate + (r - min_rate) * m ^ 0)
             = Inr (min_rate + (r - min_rate) * m ^ 0)"
      "context_round ((r - min_rate) * m ^ 0) = Inr ((r - min_rate) * m ^ 0)"
    and one: "context_round (min_rate + (r - min_rate) * m ^ 1)
                = Inr (min_rate + (r - min_rate) * m ^ 1)"
      "context_round ((r - min_rate) * m ^ 1) = Inr ((r - min_rate) * m ^ 1)"
    by blast+
  from zero have start: "context_round r = Inr r" "context_round (r - min_rate) = Inr (r - min_rate)"
    by simp_all
  from one have step: "context_round ((r - min_rate) * m + min_rate) = Inr ?r'"
    "context_round ((r - min_rate) * m) = Inr ((r - min_rate) * m)"
    by (simp_all add: add.commute)
  have rest: "\<forall>k\<in>{0..n}.
             context_round (min_rate + (?r' - min_rate) * m ^ k)
               = Inr (min_rate + (?r' - min_rate) * m ^ k) \<and>
             context_round ((?r' - min_rate) * m ^ k) = Inr ((?r' - min_rate) * m ^ k)"
  proof
    fix k assume "k \<in> {0..n}"
    then have "Suc k \<in> {0..Suc n}" by simp
    with Suc.prems have
      "context_round (min_rate + (r - min_rate) * m ^ Suc k)
         = Inr (min_rate + (r - min_rate) * m ^ Suc k) \<and>
       context_round ((r - min_rate) * m ^ Suc k) = Inr ((r - min_rate) * m ^ Suc k)"
      by blast
    moreover have "(?r' - min_rate) * m ^ k = (r - min_rate) * m ^ Suc k"
      by simp
    ultimately show
      "context_round (min_rate + (?r' - min_rate) * m ^ k)
         = Inr (min_rate + (?r' - min_rate) * m ^ k) \<and>
       context_round ((?r' - min_rate) * m ^ k) = Inr ((?r' - min_rate) * m ^ k)"
      by (simp only:)
  qed
  have "decay_loop min_rate 0 m (Suc n) r = decay_loop min_rate 0 m n ?r'"
    by (simp add: dec_sub_def dec_mul_def dec_add_def start step)
  also have "\<dots> = Inr (min_rate + (?r' - min_rate) * m ^ n)"
    by (rule Suc.IH [OF rest])
  also have "min_rate + (?r' - min_rate) * m ^ n = min_rate + (r - min_rate) * m ^ Suc n"
    by simp
  finally show ?case .
qed

lemma new_rate_after_timedelta:
  assumes "min_rate < rate self" and "i \<noteq> 0"
    and "(utcnow - submitted_at self) div i = int n" and "1 \<le> n"
    and "decay_loop min_rate d m n (rate self) = Inr new_rate"
  shows "new_rate_after min_rate d m (PyTimedelta i) utcnow self =
           Inr (Some (max new_rate min_rate))"
  using assms by (simp add: new_rate_after_def Let_def)

text \<open>
  C2 (USD and BTC alike), as the code has it. With a decay multiplier of 1, a decrement
  \<open>d\<close> and \<open>n \<ge> 1\<close> whole intervals elapsed since submission (the interval a non-zero
  duration), an offer whose rate is strictly above the minimum gets the new rate
  \<open>max (rate - n * d) min_rate\<close>, provided the Decimal arithmetic is exact on the way:
  each \<open>rate - k * d\<close> and each \<open>rate - k * d - min_rate\<close>, for \<open>k\<close> from 1 to \<open>n\<close>, is a
  value that rounding in the context leaves as it is.
\<close>

theorem get_new_rate_linear:
  assumes "currency self = ''USD'' \<and>
             USD_MINIMUM_RATE_PERCENT cfg = min_rate \<and>
             USD_RATE_DECREMENT_PERCENT cfg = d \<and>
             USD_RATE_EXPONENTIAL_DECAY_MULTIPLIER cfg = 1 \<and>
             USD_RATE_REDUCTION_INTERVAL cfg = PyTimedelta i
           \<or> currency self = ''BTC'' \<and>
             BTC_MINIMUM_RATE_PERCENT cfg = min_rate \<and>
             BTC_RATE_DECREMENT_PERCENT cfg = d \<and>
             BTC_RATE_EXPONENTIAL_DECAY_MULTIPLIER cfg = 1 \<and>
             BTC_RATE_REDUCTION_INTERVAL cfg = PyTimedelta i"
    and "min_rate < rate self"
    and "i \<noteq> 0"
    and "(utcnow - submitted_at self) div i = int n"
    and "1 \<le> n"
    and "\<forall>k\<in>{1..n}.
           context_round (rate self - of_nat k * d) = Inr (rate self - of_nat k * d) \<and>
           context_round (rate self - of_nat k * d - min_rate)
             = Inr (rate self - of_nat k * d - min_rate)"
  shows "get_new_rate cfg utcnow self = Inr (Some (max (rate self - of_nat n * d) min_rate))"
proof -
  have "new_rate_after min_rate d 1 (PyTimedelta i) utcnow self =
          Inr (Some (max (rate self - of_nat n * d) min_rate))"
    using new_rate_after_timedelta [OF assms(2,3,4,5) decay_loop_linear [OF assms(6)]] .
  with assms(1) show ?thesis
    by (auto simp: get_new_rate_def)
qed

theorem get_new_rate_linear_witness:
  "get_new_rate (hourly_config 0 1 1) 7200000000 (usd_offer 1 5 100) = Inr (Some 3)"
proof -
  note exact = context_round_examples
  have "\<forall>k\<in>{1..2::nat}.
           context_round (rate (usd_offer 1 5 100) - of_nat k * 1)
             = Inr (rate (usd_offer 1 5 100) - of_nat k * 1) \<and>
           context_round (rate (usd_offer 1 5 100) - of_nat k * 1 - 0)
             = Inr (rate (usd_offer 1 5 100) - of_nat k * 1 - 0)"
  proof
    fix k :: nat assume "k \<in> {1..2}"
    then have "k = 1 \<or> k = 2" by auto
    then show "context_round (rate (usd_offer 1 5 100) - of_nat k * 1)
             = Inr (rate (usd_offer 1 5 100) - of_nat k * 1) \<and>
           context_round (rate (usd_offer 1 5 100) - of_nat k * 1 - 0)
             = Inr (rate (usd_offer 1 5 100) - of_nat k * 1 - 0)"
      using exact by (auto simp: usd_offer_def)
  qed
  from get_new_rate_linear [of "usd_offer 1 5 100" "hourly_config 0 1 1" 0 1 3600000000
      7200000000 2, OF _ _ _ _ _ this]
  show ?thesis
    by (simp add: hourly_config_def usd_offer_def)
qed

text \<open>
  A rate of 29 significant digits, \<open>5.0000000000000000000000000001\<close>, with a decrement of
  1 and a minimum of 0, after one interval: the subtraction is rounded to 28 digits and
  the new rate is 4, not the rate less the decrement.
\<close>

theorem get_new_rate_linear_rounds:
  "get_new_rate (hourly_config 0 1 1) 3600000000
     (usd_offer 1 (50000000000000000000000000001 / 10000000000000000000000000000) 100)
   = Inr (Some 4)
   \<and> get_new_rate (hourly_config 0 1 1) 3600000000
       (usd_offer 1 (50000000000000000000000000001 / 10000000000000000000000000000) 100)
     \<noteq> Inr (Some (max (50000000000000000000000000001 / 10000000000000000000000000000
                          - of_nat 1 * 1) 0))"
proof -
  have "context_round (50000000000000000000000000001 / 10000000000000000000000000000 - 1)
          = Inr 4"
    by code_simp
  then have "get_new_rate (hourly_config 0 1 1) 3600000000
     (usd_offer 1 (50000000000000000000000000001 / 10000000000000000000000000000) 100)
   = Inr (Some 4)"
    by (simp add: get_new_rate_eval)
  then show ?thesis by simp
qed

text \<open>
  C10. In BFClient.py the interval is the integer \<open>1\<close>, so \<open>time_elapsed // 1\<close> is a
  duration and the comparison \<open>intervals_elapsed < 1\<close> raises \<open>TypeError\<close>: a USD offer
  with a rate above 0, or a BTC offer with a rate above 1, always ends in that error, and
  no call at all returns a new rate.
\<close>

theorem BFClient_get_new_rate_never_rate:
  "((currency self = ''USD'' \<and> 0 < rate self \<or> currency self = ''BTC'' \<and> 1 < rate self)
      \<longrightarrow> BFClient_get_new_rate utcnow self = Inl TypeError)
   \<and> (\<forall>r. BFClient_get_new_rate utcnow self \<noteq> Inr (Some r))"
  by (auto simp: BFClient_get_new_rate_def new_rate_after_def Let_def)

theorem BFClient_get_new_rate_never_rate_witness:
  "BFClient_get_new_rate 7200000000
     \<lparr>offer_id = 1, currency = ''USD'', rate = 5, submitted_at = 0, amount = 100\<rparr>
   = Inl TypeError"
  using BFClient_get_new_rate_never_rate [of
     "\<lparr>offer_id = 1, currency = ''USD'', rate = 5, submitted_at = 0, amount = 100\<rparr>"
     7200000000]
  by simp

lemma get_new_rate_exponential_form:
  assumes "currency self = ''USD'' \<and>
             USD_MINIMUM_RATE_PERCENT cfg = min_rate \<and>
             USD_RATE_DECREMENT_PERCENT cfg = 0 \<and>
             USD_RATE_EXPONENTIAL_DECAY_MULTIPLIER cfg = m \<and>
             USD_RATE_REDUCTION_INTERVAL cfg = PyTimedelta i
           \<or> currency self = ''BTC'' \<and>
             BTC_MINIMUM_RATE_PERCENT cfg = min_rate \<and>
             BTC_RATE_DECREMENT_PERCENT cfg = 0 \<and>
             BTC_RATE_EXPONENTIAL_DECAY_MULTIPLIER cfg = m \<and>
             BTC_RATE_REDUCTION_INTERVAL cfg = PyTimedelta i"
    and "min_rate < rate self" and "i \<noteq> 0"
    and "(t - submitted_at self) div i = int n" and "1 \<le> n"
    and "\<forall>k\<in>{0..n}.
           context_round (min_rate + (rate self - min_rate) * m ^ k)
             = Inr (min_rate + (rate self - min_rate) * m ^ k) \<and>
           context_round ((rate self - min_rate) * m ^ k)
             = Inr ((rate self - min_rate) * m ^ k)"
  shows "get_new_rate cfg t self =
           Inr (Some (max (min_rate + (rate self - min_rate) * m ^ n) min_rate))"
proof -
  have "new_rate_after min_rate 0 m (PyTimedelta i) t self =
          Inr (Some (max (min_rate + (rate self - min_rate) * m ^ n) min_rate))"
    using new_rate_after_timedelta [OF assms(2,3,4,5) decay_loop_exponential [OF assms(6)]] .
  with assms(1) show ?thesis
    by (auto simp: get_new_rate_def)
qed

text \<open>
  C3, as the code has it: for a multiplier strictly between 0 and 1 and for as many
  intervals as the Decimal arithmetic stays exact. Let the decrement be 0, the rate be
  above the minimum and the interval a non-zero duration, and let every
  \<open>(rate - min_rate) * m ^ k\<close> and every \<open>min_rate + (rate - min_rate) * m ^ k\<close>, for \<open>k\<close>
  from 0 to \<open>n + 1\<close>, be a value that rounding in the context leaves as it is. Then the
  new rate after \<open>n \<ge> 1\<close> whole intervals is \<open>min_rate + (rate - min_rate) * m ^ n\<close>, which
  is below the offer's rate, and the new rate after \<open>n + 1\<close> intervals is strictly below
  it and still strictly above the minimum: the clamp does not take effect.
\<close>

theorem get_new_rate_exponential:
  assumes "currency self = ''USD'' \<and>
             USD_MINIMUM_RATE_PERCENT cfg = min_rate \<and>
             USD_RATE_DECREMENT_PERCENT cfg = 0 \<and>
             USD_RATE_EXPONENTIAL_DECAY_MULTIPLIER cfg = m \<and>
             USD_RATE_REDUCTION_INTERVAL cfg = PyTimedelta i
           \<or> currency self = ''BTC'' \<and>
             BTC_MINIMUM_RATE_PERCENT cfg = min_rate \<and>
             BTC_RATE_DECREMENT_PERCENT cfg = 0 \<and>
             BTC_RATE_EXPONENTIAL_DECAY_MULTIPLIER cfg = m \<and>
             BTC_RATE_REDUCTION_INTERVAL cfg = PyTimedelta i"
    and "min_rate < rate self" and "i \<noteq> 0"
    and "0 < m" and "m < 1"
    and "(t - submitted_at self) div i = int n" and "1 \<le> n"
    and "(t' - submitted_at self) div i = int (Suc n)"
    and "\<forall>k\<in>{0..Suc n}.
           context_round (min_rate + (rate self - min_rate) * m ^ k)
             = Inr (min_rate + (rate self - min_rate) * m ^ k) \<and>
           context_round ((rate self - min_rate) * m ^ k)
             = Inr ((rate self - min_rate) * m ^ k)"
  shows "\<exists>x y. get_new_rate cfg t self = Inr (Some x) \<and>
               get_new_rate cfg t' self = Inr (Some y) \<and>
               x = min_rate + (rate self - min_rate) * m ^ n \<and>
               min_rate < y \<and> y < x \<and> x < rate self"
proof -
  let ?c = "rate self - min_rate"
  let ?r = "\<lambda>n. min_rate + ?c * m ^ n"
  have c: "0 < ?c" using assms(2) by simp
  have above: "min_rate < ?r k" for k
    using c assms(4) by simp
  have clamp: "max (?r k) min_rate = ?r k" for k
    using above [of k] by (simp add: max_def)
  have exact_n: "\<forall>k\<in>{0..n}.
           context_round (min_rate + ?c * m ^ k) = Inr (min_rate + ?c * m ^ k) \<and>
           context_round (?c * m ^ k) = Inr (?c * m ^ k)"
    using assms(9) by simp
  have x: "get_new_rate cfg t self = Inr (Some (?r n))"
    using get_new_rate_exponential_form [OF assms(1,2,3,6,7) exact_n] clamp [of n]
    by simp
  have "1 \<le> Suc n" by simp
  from get_new_rate_exponential_form [OF assms(1,2,3,8) this assms(9)] clamp [of "Suc n"]
  have y: "get_new_rate cfg t' self = Inr (Some (?r (Suc n)))"
    by simp
  have step: "?r (Suc n) < ?r n"
  proof -
    have "m ^ Suc n < m ^ n"
      using assms(4,5) by (simp add: power_Suc_less)
    then show ?thesis using c by simp
  qed
  have first: "?r n < rate self"
  proof -
    have "m ^ n < 1"
      using assms(4,5,7) by (intro power_less_one_iff [THEN iffD2]) simp_all
    then have "?c * m ^ n < ?c * 1"
      using c by (intro mult_strict_left_mono) simp_all
    then show ?thesis by simp
  qed
  from x y above [of "Suc n"] step first show ?thesis by simp
qed

theorem get_new_rate_exponential_witness:
  "get_new_rate (hourly_config 1 0 (1 / 2)) 3600000000 (usd_offer 1 5 100) = Inr (Some 3)
   \<and> get_new_rate (hourly_config 1 0 (1 / 2)) 7200000000 (usd_offer 1 5 100) = Inr (Some 2)"
proof -
  let ?cfg = "hourly_config 1 0 (1 / 2)"
  let ?o = "usd_offer 1 5 100"
  note exact = context_round_examples
  have "\<forall>k\<in>{0..Suc 1}.
           context_round (1 + (rate ?o - 1) * (1 / 2) ^ k)
             = Inr (1 + (rate ?o - 1) * (1 / 2) ^ k) \<and>
           context_round ((rate ?o - 1) * (1 / 2) ^ k) = Inr ((rate ?o - 1) * (1 / 2) ^ k)"
  proof
    fix k :: nat assume "k \<in> {0..Suc 1}"
    then have "k = 0 \<or> k = 1 \<or> k = 2" by auto
    then show "context_round (1 + (rate ?o - 1) * (1 / 2) ^ k)
             = Inr (1 + (rate ?o - 1) * (1 / 2) ^ k) \<and>
           context_round ((rate ?o - 1) * (1 / 2) ^ k) = Inr ((rate ?o - 1) * (1 / 2) ^ k)"
      using exact by (auto simp: usd_offer_def power2_eq_square)
  qed
  from get_new_rate_exponential [of ?o ?cfg 1 "1 / 2" 3600000000 3600000000 1 7200000000,
      OF _ _ _ _ _ _ _ _ this]
  obtain x y where "get_new_rate ?cfg 3600000000 ?o = Inr (Some x)"
    "get_new_rate ?cfg 7200000000 ?o = Inr (Some y)" "x = 3"
    by (auto simp: hourly_config_def usd_offer_def)
  moreover have "get_new_rate ?cfg 7200000000 ?o = Inr (Some 2)"
    by (simp add: get_new_rate_eval)
  ultimately show ?thesis by simp
qed

text \<open>
  With the multiplier \<open>-1\<close>, a rate of 5 and a minimum of 1, the new rate after one
  interval is the minimum 1 (clamped), and after two intervals it is 5 again: it rises.
\<close>

theorem get_new_rate_negative_multiplier:
  "get_new_rate (hourly_config 1 0 (- 1)) 3600000000 (usd_offer 1 5 100) = Inr (Some 1)
   \<and> get_new_rate (hourly_config 1 0 (- 1)) 7200000000 (usd_offer 1 5 100) = Inr (Some 5)"
  by (simp add: get_new_rate_eval)

text \<open>
  Where the arithmetic is not exact the rounding decides. With a multiplier of forty
  nines after the point, a rate of 10 and a minimum of 0, the product rounds back to 10
  and the rate does not move, after one interval or after ten.
\<close>

lemma get_new_rate_rounds_back:
  "get_new_rate (hourly_config 0 0 (1 - 1 / 10 ^ 40)) 3600000000 (usd_offer 1 10 100)
     = Inr (Some 10)"
  "get_new_rate (hourly_config 0 0 (1 - 1 / 10 ^ 40)) 36000000000 (usd_offer 1 10 100)
     = Inr (Some 10)"
proof -
  define m :: rat where "m = 1 - 1 / 10 ^ 40"
  have "context_round 10 = Inr 10" "context_round (10 * m) = Inr 10"
    unfolding m_def by code_simp+
  then have step: "decay_loop 0 0 m (Suc n) 10 = decay_loop 0 0 m n 10" for n
    by (simp add: dec_sub_def dec_mul_def dec_add_def)
  have loop: "decay_loop 0 0 m n 10 = Inr 10" for n
    by (induction n) (simp_all only: step decay_loop.simps(1))
  have "get_new_rate (hourly_config 0 0 m) 3600000000 (usd_offer 1 10 100) = Inr (Some 10)"
    "get_new_rate (hourly_config 0 0 m) 36000000000 (usd_offer 1 10 100) = Inr (Some 10)"
    by (simp_all add: get_new_rate_def new_rate_after_def hourly_config_def usd_offer_def
        loop del: decay_loop.simps)
  then show
    "get_new_rate (hourly_config 0 0 (1 - 1 / 10 ^ 40)) 3600000000 (usd_offer 1 10 100)
       = Inr (Some 10)"
    "get_new_rate (hourly_config 0 0 (1 - 1 / 10 ^ 40)) 36000000000 (usd_offer 1 10 100)
       = Inr (Some 10)"
    unfolding m_def .
qed

section \<open>Reading offers and balances\<close>

lemma Offer_fields:
  "Offer lib d = Inr x \<Longrightarrow>
     offer_id x = o_id d \<and> currency x = o_currency d \<and>
     Decimal lib (o_rate d) = Inr (rate x) \<and>
     Decimal lib (o_remaining_amount d) = Inr (amount x)"
  by (auto simp: Offer_def split: sum.splits)

lemma get_offers_loop_result:
  "get_offers_loop lib ds usd btc = Inr (u, b) \<Longrightarrow>
     map Inr u = map Inr usd @
       map (Offer lib) (filter (\<lambda>d. o_direction d = ''lend'' \<and> o_rate d \<noteq> ''0.0''
                              \<and> o_currency d = ''USD'') ds) \<and>
     map Inr b = map Inr btc @
       map (Offer lib) (filter (\<lambda>d. o_direction d = ''lend'' \<and> o_rate d \<noteq> ''0.0''
                              \<and> o_currency d = ''BTC'') ds)"
proof (induction ds arbitrary: usd btc)
  case Nil
  then show ?case by simp
next
  case (Cons d ds)
  show ?case
  proof (cases "o_direction d = ''lend'' \<and> o_rate d \<noteq> ''0.0''")
    case False
    with Cons.prems have "get_offers_loop lib ds usd btc = Inr (u, b)" by auto
    from Cons.IH [OF this] False show ?thesis by auto
  next
    case True
    with Cons.prems obtain x where x: "Offer lib d = Inr x"
      by (cases "Offer lib d") auto
    from Offer_fields [OF x] have cur: "currency x = o_currency d" by simp
    consider "o_currency d = ''USD''" | "o_currency d \<noteq> ''USD''" "o_currency d = ''BTC''"
      | "o_currency d \<noteq> ''USD''" "o_currency d \<noteq> ''BTC''" by blast
    then show ?thesis
    proof cases
      case 1
      with Cons.prems True x cur
      have "get_offers_loop lib ds (usd @ [x]) btc = Inr (u, b)" by simp
      from Cons.IH [OF this] True x 1 show ?thesis by simp
    next
      case 2
      with Cons.prems True x cur
      have "get_offers_loop lib ds usd (btc @ [x]) = Inr (u, b)" by simp
      from Cons.IH [OF this] True x 2 show ?thesis by simp
    next
      case 3
      with Cons.prems True x cur
      have "get_offers_loop lib ds usd btc = Inr (u, b)" by simp
      from Cons.IH [OF this] True x 3 show ?thesis by simp
    qed
  qed
qed

lemma get_offers_loop_returns:
  "\<forall>d\<in>set ds. o_direction d = ''lend'' \<and> o_rate d \<noteq> ''0.0'' \<longrightarrow>
       (\<exists>x. Offer lib d = Inr x) \<Longrightarrow>
     \<exists>u b. get_offers_loop lib ds usd btc = Inr (u, b)"
proof (induction ds arbitrary: usd btc)
  case Nil
  then show ?case by simp
next
  case (Cons d ds)
  then have IH: "\<exists>u b. get_offers_loop lib ds usd' btc' = Inr (u, b)" for usd' btc'
    by simp
  show ?case
  proof (cases "o_direction d = ''lend'' \<and> o_rate d \<noteq> ''0.0''")
    case False
    then show ?thesis using IH [of usd btc] by auto
  next
    case True
    with Cons.prems obtain x where x: "Offer lib d = Inr x" by auto
    show ?thesis
      using True x IH [of "usd @ [x]" btc] IH [of usd "btc @ [x]"] IH [of usd btc]
      by simp
  qed
qed

text \<open>
  What \<open>get_offers\<close> returns, whatever the library does. The entries kept are those whose
  direction is the string \<open>lend\<close>, whose rate is not the string \<open>0.0\<close> and whose currency
  is \<open>USD\<close> (first list) or \<open>BTC\<close> (second list); each list holds the offers built from
  its entries, in the order of the response. The call returns whenever \<open>Offer\<close> raises
  for no entry that passes the two string tests.
\<close>

lemma get_offers_result:
  "(get_offers lib offers_data = Inr (usd_offers, btc_offers) \<longrightarrow>
      map Inr usd_offers =
        map (Offer lib) (filter (\<lambda>d. o_direction d = ''lend'' \<and> o_rate d \<noteq> ''0.0''
                               \<and> o_currency d = ''USD'') offers_data) \<and>
      map Inr btc_offers =
        map (Offer lib) (filter (\<lambda>d. o_direction d = ''lend'' \<and> o_rate d \<noteq> ''0.0''
                               \<and> o_currency d = ''BTC'') offers_data))
   \<and> ((\<forall>d\<in>set offers_data. o_direction d = ''lend'' \<and> o_rate d \<noteq> ''0.0'' \<longrightarrow>
           (\<exists>x. Offer lib d = Inr x)) \<longrightarrow>
        (\<exists>u b. get_offers lib offers_data = Inr (u, b)))"
  using get_offers_loop_result [of lib offers_data "[]" "[]" usd_offers btc_offers]
    get_offers_loop_returns [of offers_data lib "[]" "[]"]
  unfolding get_offers_def by simp

text \<open>
  C7. The comment above the test says \<open>Ignore swap demands and FRR offers\<close>, and an FRR
  offer is one whose rate is zero; but the test compares the rate with the one string
  \<open>0.0\<close>. An entry of direction \<open>lend\<close> whose rate is written \<open>0.00\<close> is therefore not
  ignored: whenever \<open>get_offers\<close> returns, the offer built from that entry is in the
  list of its currency, and its rate is what \<open>Decimal\<close> makes of \<open>0.00\<close>, which in
  Python is zero.
\<close>

theorem get_offers_zero_rate_kept:
  assumes "get_offers lib offers_data = Inr (usd_offers, btc_offers)"
    and "d \<in> set offers_data"
    and "o_direction d = ''lend''" and "o_rate d = ''0.00''"
  shows "(o_currency d = ''USD'' \<longrightarrow>
            (\<exists>x. x \<in> set usd_offers \<and> Offer lib d = Inr x \<and>
                 Decimal lib ''0.00'' = Inr (rate x)))
       \<and> (o_currency d = ''BTC'' \<longrightarrow>
            (\<exists>x. x \<in> set btc_offers \<and> Offer lib d = Inr x \<and>
                 Decimal lib ''0.00'' = Inr (rate x)))"
proof -
  have kept: "o_direction d = ''lend'' \<and> o_rate d \<noteq> ''0.0''"
    using assms(3,4) by simp
  from get_offers_loop_result [of lib offers_data "[]" "[]" usd_offers btc_offers] assms(1)
  have usd: "map Inr usd_offers =
        map (Offer lib) (filter (\<lambda>d. o_direction d = ''lend'' \<and> o_rate d \<noteq> ''0.0''
                               \<and> o_currency d = ''USD'') offers_data)"
    and btc: "map Inr btc_offers =
        map (Offer lib) (filter (\<lambda>d. o_direction d = ''lend'' \<and> o_rate d \<noteq> ''0.0''
                               \<and> o_currency d = ''BTC'') offers_data)"
    by (simp_all add: get_offers_def)
  have found: "\<exists>x. x \<in> set offers \<and> Offer lib d = Inr x \<and> Decimal lib ''0.00'' = Inr (rate x)"
    if eq: "map Inr offers = map (Offer lib) (filter P offers_data)" and "P d"
    for offers :: "'a offer_of list" and P
  proof -
    from that(2) assms(2) have "Offer lib d \<in> set (map (Offer lib) (filter P offers_data))"
      by simp
    with eq have "Offer lib d \<in> set (map Inr offers)" by simp
    then obtain x where x: "x \<in> set offers" "Offer lib d = Inr x" by auto
    from Offer_fields [OF x(2)] assms(4) have "Decimal lib ''0.00'' = Inr (rate x)"
      by simp
    with x show ?thesis by blast
  qed
  show ?thesis
    using found [OF usd] found [OF btc] kept by simp
qed

theorem get_offers_zero_rate_kept_witness:
  "get_offers example_library
     [\<lparr>o_id = 1, o_currency = ''USD'', o_rate = ''0.00'', o_timestamp = ''1444141857.0'',
        o_remaining_amount = ''100.0'', o_direction = ''lend''\<rparr>]
   = Inr ([\<lparr>offer_id = 1, currency = ''USD'', rate = 0, submitted_at = 1444141857000000,
             amount = 100\<rparr>], [])
   \<and> Decimal example_library ''0.00'' = Inr 0"
proof -
  let ?d = "\<lparr>o_id = 1, o_currency = ''USD'', o_rate = ''0.00'',
             o_timestamp = ''1444141857.0'', o_remaining_amount = ''100.0'',
             o_direction = ''lend''\<rparr>"
  let ?x = "\<lparr>offer_id = 1, currency = ''USD'', rate = 0 :: rat,
             submitted_at = 1444141857000000, amount = 100 :: rat\<rparr>"
  have run: "get_offers example_library [?d] = Inr ([?x], [])"
    by (simp add: get_offers_def Offer_def example_library_def)
  from get_offers_zero_rate_kept [OF run, of ?d]
  have "\<exists>x. x \<in> set [?x] \<and> Offer example_library ?d = Inr x \<and>
            Decimal example_library ''0.00'' = Inr (rate x)"
    by simp
  then have "Decimal example_library ''0.00'' = Inr 0"
    by simp
  with run show ?thesis by simp
qed







section \<open>Rebalancing\<close>









section \<open>Requests\<close>

text \<open>
  C5. Three answers with status 500 followed by a 200: the first answer already ends the
  loop, because a response with status 500 is false as a truth value and the test
  \<open>request and request.status_code == 500\<close> therefore never holds. There is one attempt,
  no backoff sleep at all, the body is printed and \<open>raise_for_status()\<close> raises. The rate
  limiter has been passed once and one nonce is used.
\<close>

theorem request_500_not_retried:
  "request \<lparr>lag = (\<lambda>k. 1), http = three_500_then_200\<rparr> ''/v1/offers''
     (BitfinexAPI start_world) start_world
   = Some (Inl (HTTPError 500),
           \<lparr>nonce = 1444141858, request_timestamps = [1444141857000002]\<rparr>,
           \<lparr>now = 1444141857000002, clock_reads = 2, attempts = 1,
             log = [Stamped 1444141857000002, Signed ''/v1/offers'' 1444141857,
                    Post ''/v1/offers'' 1444141857,
                    Print_text ''Internal Server Error'']\<rparr>)"
  by code_simp

text \<open>
  The other retried failure works as described: three connection failures followed by a
  200 give the sleeps of 1, 2 and 4 seconds, one pass through the rate limiter and one
  nonce, sent again with every attempt.
\<close>

lemma request_connection_backoff:
  "request \<lparr>lag = (\<lambda>k. 1), http = three_failures_then_200\<rparr> ''/v1/offers''
     (BitfinexAPI start_world) start_world
   = Some (Inr ''[]'',
           \<lparr>nonce = 1444141858, request_timestamps = [1444141857000002]\<rparr>,
           \<lparr>now = 1444141864000002, clock_reads = 2, attempts = 4,
             log = [Stamped 1444141857000002, Signed ''/v1/offers'' 1444141857,
                    Post ''/v1/offers'' 1444141857,
                    Retry_sleep (Some ''Connection failed,'') 1,
                    Post ''/v1/offers'' 1444141857,
                    Retry_sleep (Some ''Connection failed,'') 2,
                    Post ''/v1/offers'' 1444141857,
                    Retry_sleep (Some ''Connection failed,'') 4,
                    Post ''/v1/offers'' 1444141857]\<rparr>)"
  by code_simp











section \<open>The rate limiter\<close>












end
